theory Spec2Isabelle
  imports Main "HOL-Library.Word" "HOL-Library.AList"
begin

text \<open>
  The RPC server of package rpcplus: the validation of methods and the registration of
  services, the response writer, the serving loop of a connection, and the executor of one
  call with its streaming path. Goroutines are modelled by what each of them does to the
  state it shares with the others; the executor, where the order of their steps matters,
  is a transition system.
\<close>

section \<open>Run-time types and values\<close>

text \<open>
  The server inspects receivers through package reflect. Of a \<^verbatim>\<open>reflect.Type\<close> it uses
  \<^verbatim>\<open>Kind() == reflect.Ptr\<close>, \<^verbatim>\<open>Elem()\<close>, \<^verbatim>\<open>Name()\<close>, \<^verbatim>\<open>PkgPath()\<close> and equality. A type is
  either a pointer type or any other type, given by its name and its package path (both
  empty for an unnamed type, the path empty for a predeclared one).
  Strings are byte strings; names are taken to begin with an ASCII byte, for which
  \<^verbatim>\<open>unicode.IsUpper\<close> is the test for a letter from A to Z.
\<close>

datatype rtype = Ptr rtype | Base string string

fun Name :: "rtype \<Rightarrow> string" where
  "Name (Ptr t) = []"
| "Name (Base n p) = n"

fun PkgPath :: "rtype \<Rightarrow> string" where
  "PkgPath (Ptr t) = []"
| "PkgPath (Base n p) = p"

fun isPtr :: "rtype \<Rightarrow> bool" where
  "isPtr (Ptr t) = True"
| "isPtr (Base n p) = False"

text \<open>\<^verbatim>\<open>var typeOfError = reflect.TypeOf((*error)(nil)).Elem()\<close>: the predeclared type error.\<close>

definition typeOfError :: rtype where
  "typeOfError = Base ''error'' []"

text \<open>\<^verbatim>\<open>var typeOfStream = reflect.TypeOf(Stream{})\<close>: the struct type Stream of this package.\<close>

definition typeOfStream :: rtype where
  "typeOfStream = Base ''Stream'' ''rpcplus''"

text \<open>\<^verbatim>\<open>reflect.TypeOf("")\<close>, the context type of a new server.\<close>

definition typeOfString :: rtype where
  "typeOfString = Base ''string'' []"

text \<open>
  Values that travel through \<^verbatim>\<open>interface{}\<close> and \<^verbatim>\<open>reflect.Value\<close>: the nil interface, the
  empty struct \<^verbatim>\<open>struct{}{}\<close>, the zero value of a type, a pointer to a value, and any other
  value of a type (told apart by a number).
\<close>

datatype rvalue = NilV | EmptyStruct | Zero rtype | PtrTo rvalue | Dat rtype nat

text \<open>\<^verbatim>\<open>reflect.New(t)\<close>: a pointer to a new zero value of \<open>t\<close>.\<close>

definition reflect_New :: "rtype \<Rightarrow> rvalue" where
  "reflect_New t = PtrTo (Zero t)"


section \<open>Headers, method descriptors, services, the server\<close>

record Request =
  req_ServiceMethod :: string
  req_Seq :: "64 word"

record Response =
  resp_ServiceMethod :: string
  resp_Seq :: "64 word"
  resp_Error :: string

definition zeroRequest :: Request where
  "zeroRequest = \<lparr>req_ServiceMethod = [], req_Seq = 0\<rparr>"

definition zeroResponse :: Response where
  "zeroResponse = \<lparr>resp_ServiceMethod = [], resp_Seq = 0, resp_Error = []\<rparr>"

definition lastStreamResponseError :: string where
  "lastStreamResponseError = ''EOS''"

text \<open>
  A \<^verbatim>\<open>reflect.Method\<close>: its name, the package path that qualifies an unexported name (empty
  for an exported method), and the parameter types (the receiver first) and result types
  of its function type.
\<close>

record Method =
  m_Name :: string
  m_PkgPath :: string
  m_In :: "rtype list"
  m_Out :: "rtype list"

text \<open>
  The struct methodType, without its mutex. The counter numCalls is a \<^verbatim>\<open>uint\<close>, here of 64
  bits.
\<close>

record methodType =
  mt_method :: Method
  ArgType :: rtype
  ReplyType :: rtype
  ContextType :: "rtype option"
  stream :: bool
  numCalls :: "64 word"

definition TakesContext :: "methodType \<Rightarrow> bool" where
  "TakesContext m = (ContextType m \<noteq> None)"

text \<open>The method map of a service is kept as an association list, read with \<open>map_of\<close>.\<close>

record service =
  s_name :: string
  s_rcvr :: rvalue
  s_typ :: rtype
  s_method :: "(string \<times> methodType) list"

record Server =
  serviceMap :: "string \<rightharpoonup> service"
  freeReq :: "Request list"
  freeResp :: "Response list"
  contextType :: rtype

definition NewServer :: Server where
  "NewServer = \<lparr>serviceMap = Map.empty, freeReq = [], freeResp = [], contextType = typeOfString\<rparr>"

definition SetContextType :: "Server \<Rightarrow> rtype \<Rightarrow> Server" where
  "SetContextType server typ = server\<lparr>contextType := typ\<rparr>"

section \<open>The method validator\<close>

definition isUpper :: "char \<Rightarrow> bool" where
  "isUpper c = (65 \<le> (of_char c :: nat) \<and> (of_char c :: nat) \<le> 90)"

definition isExported :: "string \<Rightarrow> bool" where
  "isExported name = (case name of [] \<Rightarrow> False | c # cs \<Rightarrow> isUpper c)"

fun isExportedOrBuiltinType :: "rtype \<Rightarrow> bool" where
  "isExportedOrBuiltinType (Ptr t) = isExportedOrBuiltinType t"
| "isExportedOrBuiltinType (Base n p) = (isExported n \<or> p = [])"

text \<open>
  The \<^verbatim>\<open>switch mtype.NumIn()\<close> of prepareMethod: the argument, reply and context types for
  three and for four parameters, nothing for any other number.
\<close>

definition methodIns :: "Method \<Rightarrow> (rtype \<times> rtype \<times> rtype option) option" where
  "methodIns method =
     (if length (m_In method) = 3 then Some (m_In method ! 1, m_In method ! 2, None)
      else if length (m_In method) = 4
        then Some (m_In method ! 2, m_In method ! 3, Some (m_In method ! 1))
      else None)"

definition prepareMethod :: "Method \<Rightarrow> methodType option" where
  "prepareMethod method =
     (if m_PkgPath method \<noteq> [] then None
      else case methodIns method of
        None \<Rightarrow> None
      | Some (argType, replyType, ctxType) \<Rightarrow>
          if \<not> isExportedOrBuiltinType argType then None
          else if replyType \<noteq> typeOfStream \<and> \<not> isPtr replyType then None
          else if \<not> isExportedOrBuiltinType replyType then None
          else if length (m_Out method) \<noteq> 1 then None
          else if m_Out method ! 0 \<noteq> typeOfError then None
          else Some \<lparr>mt_method = method, ArgType = argType, ReplyType = replyType,
                      ContextType = ctxType, stream = (replyType = typeOfStream),
                      numCalls = 0\<rparr>)"

section \<open>Registration\<close>

text \<open>
  A receiver as register sees it: its value, \<^verbatim>\<open>reflect.TypeOf(rcvr)\<close> and the methods of that
  type in the order of \<^verbatim>\<open>Type.Method(i)\<close>. The receiver is not the nil interface.
\<close>

record receiver =
  r_value :: rvalue
  r_typ :: rtype
  r_methods :: "Method list"

text \<open>\<^verbatim>\<open>reflect.Indirect(v).Type()\<close>: the pointed-to type of a pointer, the type itself otherwise.\<close>

fun indirectType :: "rtype \<Rightarrow> rtype" where
  "indirectType (Ptr t) = t"
| "indirectType (Base n p) = Base n p"

text \<open>
  The loop that installs the methods: \<^verbatim>\<open>s.method[method.Name] = mt\<close> for each accepted
  method, a later one replacing an earlier one of the same name.
\<close>

fun installMethods :: "(string \<times> methodType) list \<Rightarrow> Method list \<Rightarrow> (string \<times> methodType) list" where
  "installMethods acc [] = acc"
| "installMethods acc (method # ms) =
     (case prepareMethod method of
        None \<Rightarrow> installMethods acc ms
      | Some mt \<Rightarrow> installMethods (AList.update (m_Name method) mt acc) ms)"

text \<open>
  What a call of register does: it returns (nil or an error), or \<^verbatim>\<open>log.Fatal\<close> ends the
  process.
\<close>

datatype reg_result = Returned "string option" | Fatal

definition register :: "Server \<Rightarrow> receiver \<Rightarrow> string \<Rightarrow> bool \<Rightarrow> Server \<times> reg_result" where
  "register server rcvr name useName =
     (let sname = (if useName then name else Name (indirectType (r_typ rcvr))) in
      if sname = [] then (server, Fatal)
      else if \<not> isExported sname \<and> \<not> useName
        then (server, Returned (Some (''rpc Register: type '' @ sname @ '' is not exported'')))
      else if serviceMap server sname \<noteq> None
        then (server, Returned (Some (''rpc: service already defined: '' @ sname)))
      else let s = \<lparr>s_name = sname, s_rcvr = r_value rcvr, s_typ = r_typ rcvr,
                     s_method = installMethods [] (r_methods rcvr)\<rparr> in
        if length (s_method s) = 0
        then (server, Returned (Some (''rpc Register: type '' @ sname
                @ '' has no exported methods of suitable type'')))
        else (server\<lparr>serviceMap := (serviceMap server)(sname \<mapsto> s)\<rparr>, Returned None))"

definition Register :: "Server \<Rightarrow> receiver \<Rightarrow> Server \<times> reg_result" where
  "Register server rcvr = register server rcvr [] False"


section \<open>The codec\<close>

text \<open>
  Errors as values. A codec error is \<^verbatim>\<open>io.EOF\<close>, \<^verbatim>\<open>io.ErrUnexpectedEOF\<close> or any other error,
  given by its message. The server compares errors by identity with \<^verbatim>\<open>==\<close>; it has one
  error variable of its own, errCloseStream, wraps codec errors, and makes new errors
  with \<^verbatim>\<open>errors.New\<close>.
\<close>

datatype codec_err = EOF | ErrUnexpectedEOF | OtherErr string

fun codec_Error :: "codec_err \<Rightarrow> string" where
  "codec_Error EOF = ''EOF''"
| "codec_Error ErrUnexpectedEOF = ''unexpected EOF''"
| "codec_Error (OtherErr m) = m"

datatype rpc_error = errCloseStream | CodecErr codec_err | ErrorsNew string

fun rpc_Error :: "rpc_error \<Rightarrow> string" where
  "rpc_Error errCloseStream = ''rpc: close stream''"
| "rpc_Error (CodecErr e) = codec_Error e"
| "rpc_Error (ErrorsNew m) = m"

text \<open>
  The interface ServerCodec, as a state: what the coming calls of ReadRequestHeader,
  ReadRequestBody and WriteResponse return (a header read past the end returns
  \<^verbatim>\<open>io.EOF\<close>, as does a body read; a write past the end succeeds), every call of
  WriteResponse made so far with its header, body and last flag, and whether Close was called.
\<close>

type_synonym frame = "Response \<times> rvalue \<times> bool"

record codec =
  c_headers :: "(codec_err + Request) list"
  c_bodies :: "(codec_err + rvalue) list"
  c_wresults :: "codec_err option list"
  c_written :: "frame list"
  c_closed :: bool

definition ReadRequestHeader :: "codec \<Rightarrow> codec \<times> (codec_err + Request)" where
  "ReadRequestHeader c =
     (case c_headers c of [] \<Rightarrow> (c, Inl EOF) | h # hs \<Rightarrow> (c\<lparr>c_headers := hs\<rparr>, h))"

definition ReadRequestBody :: "codec \<Rightarrow> codec \<times> (codec_err + rvalue)" where
  "ReadRequestBody c =
     (case c_bodies c of [] \<Rightarrow> (c, Inl EOF) | b # bs \<Rightarrow> (c\<lparr>c_bodies := bs\<rparr>, b))"

definition WriteResponse :: "codec \<Rightarrow> Response \<Rightarrow> rvalue \<Rightarrow> bool \<Rightarrow> codec \<times> codec_err option" where
  "WriteResponse c r body isLast =
     (case c_wresults c of
        [] \<Rightarrow> (c\<lparr>c_written := c_written c @ [(r, body, isLast)]\<rparr>, None)
      | w # ws \<Rightarrow> (c\<lparr>c_written := c_written c @ [(r, body, isLast)], c_wresults := ws\<rparr>, w))"


section \<open>Free lists and sendResponse\<close>

definition getRequest :: "Server \<Rightarrow> Server \<times> Request" where
  "getRequest server =
     (case freeReq server of
        [] \<Rightarrow> (server, zeroRequest)
      | r # rs \<Rightarrow> (server\<lparr>freeReq := rs\<rparr>, zeroRequest))"

definition freeRequest :: "Server \<Rightarrow> Request \<Rightarrow> Server" where
  "freeRequest server req = server\<lparr>freeReq := req # freeReq server\<rparr>"

definition getResponse :: "Server \<Rightarrow> Server \<times> Response" where
  "getResponse server =
     (case freeResp server of
        [] \<Rightarrow> (server, zeroResponse)
      | r # rs \<Rightarrow> (server\<lparr>freeResp := rs\<rparr>, zeroResponse))"

definition freeResponse :: "Server \<Rightarrow> Response \<Rightarrow> Server" where
  "freeResponse server resp = server\<lparr>freeResp := resp # freeResp server\<rparr>"

text \<open>\<^verbatim>\<open>var invalidRequest = struct{}{}\<close>\<close>

definition invalidRequest :: rvalue where
  "invalidRequest = EmptyStruct"

text \<open>
  sendResponse has the named result \<^verbatim>\<open>err\<close>. The source calls
  \<^verbatim>\<open>codec.WriteResponse(resp, reply, last)\<close> as a statement, so what the codec returns is
  dropped and \<^verbatim>\<open>return err\<close> returns the nil that \<^verbatim>\<open>err\<close> was declared with.
\<close>

definition sendResponse ::
  "Server \<Rightarrow> codec \<Rightarrow> Request \<Rightarrow> rvalue \<Rightarrow> string \<Rightarrow> bool \<Rightarrow> Server \<times> codec \<times> codec_err option" where
  "sendResponse server cd req reply errmsg isLast =
     (let err = None;
          (server1, resp0) = getResponse server;
          resp1 = resp0\<lparr>resp_ServiceMethod := req_ServiceMethod req\<rparr>;
          (resp2, reply2) = (if errmsg \<noteq> [] then (resp1\<lparr>resp_Error := errmsg\<rparr>, invalidRequest)
                             else (resp1, reply));
          resp3 = resp2\<lparr>resp_Seq := req_Seq req\<rparr>;
          (codec1, dropped) = WriteResponse cd resp3 reply2 isLast;
          server2 = freeResponse server1 resp3
      in (server2, codec1, err))"

section \<open>Reading a request\<close>

text \<open>\<^verbatim>\<open>strings.Split(s, ".")\<close> for a one-byte separator.\<close>

fun Split :: "string \<Rightarrow> char \<Rightarrow> string list" where
  "Split [] sep = [[]]"
| "Split (c # cs) sep =
     (if c = sep then [] # Split cs sep
      else (case Split cs sep of [] \<Rightarrow> [[c]] | w # ws \<Rightarrow> (c # w) # ws))"

text \<open>
  The results of readRequestHeader and readRequest; \<open>None\<close> is the nil pointer, or the
  zero \<^verbatim>\<open>reflect.Value\<close>, or the nil error.
\<close>

record request_read =
  rr_service :: "service option"
  rr_mtype :: "methodType option"
  rr_req :: "Request option"
  rr_argv :: "rvalue option"
  rr_replyv :: "rvalue option"
  rr_keepReading :: bool
  rr_err :: "rpc_error option"

definition no_read :: request_read where
  "no_read = \<lparr>rr_service = None, rr_mtype = None, rr_req = None, rr_argv = None,
              rr_replyv = None, rr_keepReading = False, rr_err = None\<rparr>"

definition readRequestHeader :: "Server \<Rightarrow> codec \<Rightarrow> Server \<times> codec \<times> request_read" where
  "readRequestHeader server cd =
     (let (server1, req0) = getRequest server;
          (codec1, r) = ReadRequestHeader cd
      in case r of
        Inl e \<Rightarrow>
          if e = EOF \<or> e = ErrUnexpectedEOF
          then (server1, codec1, no_read\<lparr>rr_err := Some (CodecErr e)\<rparr>)
          else (server1, codec1, no_read\<lparr>rr_err :=
                  Some (ErrorsNew (''rpc: server cannot decode request: '' @ codec_Error e))\<rparr>)
      | Inr req \<Rightarrow>
          let res = no_read\<lparr>rr_req := Some req, rr_keepReading := True\<rparr> in
          if req_ServiceMethod req = ''CloseStream''
          then (server1, codec1, res\<lparr>rr_err := Some errCloseStream\<rparr>)
          else let serviceMethod = Split (req_ServiceMethod req) (CHR ''.'') in
            if length serviceMethod \<noteq> 2
            then (server1, codec1, res\<lparr>rr_err := Some (ErrorsNew
                    (''rpc: service/method request ill-formed: '' @ req_ServiceMethod req))\<rparr>)
            else (case serviceMap server1 (serviceMethod ! 0) of
                None \<Rightarrow> (server1, codec1, res\<lparr>rr_err := Some (ErrorsNew
                    (''rpc: can't find service '' @ req_ServiceMethod req))\<rparr>)
              | Some svc \<Rightarrow>
                  (case map_of (s_method svc) (serviceMethod ! 1) of
                     None \<Rightarrow> (server1, codec1, res\<lparr>rr_service := Some svc, rr_err :=
                        Some (ErrorsNew (''rpc: can't find method '' @ req_ServiceMethod req))\<rparr>)
                   | Some mtype \<Rightarrow>
                       (server1, codec1, res\<lparr>rr_service := Some svc, rr_mtype := Some mtype\<rparr>))))"

text \<open>
  \<^verbatim>\<open>Type.Elem()\<close> panics on a type that has no element type; of the types told apart here
  only a pointer type has one. A panic, or the use of a nil pointer, is the result \<open>None\<close>
  of readRequest and the outcome Panic of the serving loop.
\<close>

fun Elem :: "rtype \<Rightarrow> rtype option" where
  "Elem (Ptr t) = Some t"
| "Elem (Base n p) = None"

definition readRequest :: "Server \<Rightarrow> codec \<Rightarrow> (Server \<times> codec \<times> request_read) option" where
  "readRequest server cd =
     (let (server1, codec1, res) = readRequestHeader server cd in
      if rr_err res \<noteq> None then
        (if \<not> rr_keepReading res then Some (server1, codec1, res)
         else let (codec2, discarded) = ReadRequestBody codec1 in Some (server1, codec2, res))
      else case rr_mtype res of
        None \<Rightarrow> None
      | Some mtype \<Rightarrow>
          (case (if isPtr (ArgType mtype) then Elem (ArgType mtype) else Some (ArgType mtype)) of
             None \<Rightarrow> None
           | Some t \<Rightarrow>
               let argIsValue = (\<not> isPtr (ArgType mtype));
                   (codec2, b) = ReadRequestBody codec1
               in case b of
                 Inl e \<Rightarrow> Some (server1, codec2,
                            res\<lparr>rr_argv := Some (reflect_New t), rr_err := Some (CodecErr e)\<rparr>)
               | Inr v \<Rightarrow>
                   let argv = (if argIsValue then v else PtrTo v) in
                   if \<not> stream mtype then
                     (case Elem (ReplyType mtype) of
                        None \<Rightarrow> None
                      | Some rt \<Rightarrow> Some (server1, codec2,
                            res\<lparr>rr_argv := Some argv, rr_replyv := Some (reflect_New rt)\<rparr>))
                   else Some (server1, codec2, res\<lparr>rr_argv := Some argv\<rparr>)))"

section \<open>The serving loop of a connection\<close>

text \<open>
  Channels are numbered in the order of their \<^verbatim>\<open>make\<close>. A request's log entry keeps the
  sequence number and the method name; its times are left out.
\<close>

type_synonym chan = nat

record RequestLogEntry =
  RequestId :: "64 word"
  RequestMethod :: string

text \<open>
  The struct call, without its references to the server, the send mutex and the codec,
  which are the state the executor runs on.
\<close>

record call =
  c_mtype :: methodType
  c_req :: Request
  c_argv :: rvalue
  c_replyv :: "rvalue option"
  c_context :: rvalue
  c_eof :: chan
  c_stop :: chan
  c_done :: chan

text \<open>The goroutines that the loop starts with \<^verbatim>\<open>go\<close>.\<close>

datatype task =
    CloseStreamTask "64 word"
  | WatcherTask "64 word" chan
  | CallTask service call

text \<open>
  The state of one connection: the server and the codec, the maps stopChans and
  requestLogMap of ServeCodecWithContext, the channels closed so far, the number of
  channels made, the goroutines started, and what maybeLog did (the entries it handed to
  the loggers, the sequence numbers it warned about).
\<close>

record conn =
  srv :: Server
  cdc :: codec
  stopChans :: "64 word \<rightharpoonup> chan"
  requestLogMap :: "64 word \<rightharpoonup> RequestLogEntry"
  closedChans :: "chan list"
  nchans :: nat
  spawned :: "task list"
  emitted :: "RequestLogEntry list"
  warnings :: "64 word list"

definition maybeLog :: "64 word \<Rightarrow> conn \<Rightarrow> conn" where
  "maybeLog seq st =
     (case requestLogMap st seq of
        None \<Rightarrow> st\<lparr>warnings := warnings st @ [seq]\<rparr>
      | Some entry \<Rightarrow> st\<lparr>emitted := emitted st @ [entry],
                           requestLogMap := (requestLogMap st)(seq := None)\<rparr>)"

text \<open>The goroutine started for a CloseStream request.\<close>

definition closeStreamTask :: "64 word \<Rightarrow> conn \<Rightarrow> conn" where
  "closeStreamTask seq st =
     (let stop = stopChans st seq;
          st1 = st\<lparr>stopChans := (stopChans st)(seq := None)\<rparr>;
          st2 = maybeLog seq st1
      in case stop of
        None \<Rightarrow> st2
      | Some ch \<Rightarrow> st2\<lparr>closedChans := closedChans st2 @ [ch]\<rparr>)"

text \<open>The goroutine that waits for done, once done is closed.\<close>

definition watcherTask :: "64 word \<Rightarrow> conn \<Rightarrow> conn" where
  "watcherTask seq st = maybeLog seq (st\<lparr>stopChans := (stopChans st)(seq := None)\<rparr>)"

datatype outcome = Continue | Break | Panic

text \<open>One turn of the \<^verbatim>\<open>for\<close> loop of ServeCodecWithContext.\<close>

definition serveIteration :: "chan \<Rightarrow> rvalue \<Rightarrow> conn \<Rightarrow> conn \<times> outcome" where
  "serveIteration eof contextVal st =
     (case readRequest (srv st) (cdc st) of
        None \<Rightarrow> (st, Panic)
      | Some (server1, codec1, res) \<Rightarrow>
          let st1 = st\<lparr>srv := server1, cdc := codec1\<rparr> in
          (case rr_err res of
             Some err \<Rightarrow>
               if err = errCloseStream then
                 (case rr_req res of
                    None \<Rightarrow> (st1, Panic)
                  | Some req \<Rightarrow>
                      (st1\<lparr>spawned := spawned st1 @ [CloseStreamTask (req_Seq req)]\<rparr>, Continue))
               else if \<not> rr_keepReading res then (st1, Break)
               else (case rr_req res of
                       None \<Rightarrow> (st1, Continue)
                     | Some req \<Rightarrow>
                         let (server2, codec2, e) =
                               sendResponse server1 codec1 req invalidRequest (rpc_Error err) True;
                             server3 = freeRequest server2 req
                         in (st1\<lparr>srv := server3, cdc := codec2\<rparr>, Continue))
           | None \<Rightarrow>
               (case (rr_service res, rr_mtype res, rr_req res, rr_argv res) of
                  (Some svc, Some mtype, Some req, Some argv) \<Rightarrow>
                    let st2 = st1\<lparr>requestLogMap := (requestLogMap st1)(req_Seq req \<mapsto>
                                 \<lparr>RequestId = req_Seq req, RequestMethod = req_ServiceMethod req\<rparr>)\<rparr>;
                        done = nchans st2;
                        stop = nchans st2 + 1;
                        st3 = st2\<lparr>nchans := nchans st2 + 2,
                                 stopChans := (stopChans st2)(req_Seq req \<mapsto> stop)\<rparr>
                    in (st3\<lparr>spawned := spawned st3 @
                          [WatcherTask (req_Seq req) done,
                           CallTask svc \<lparr>c_mtype = mtype, c_req = req, c_argv = argv,
                             c_replyv = rr_replyv res, c_context = contextVal,
                             c_eof = eof, c_stop = stop, c_done = done\<rparr>]\<rparr>, Continue)
                | _ \<Rightarrow> (st1, Panic))))"










section \<open>The executor of one call\<close>

text \<open>
  \<^verbatim>\<open>service.call\<close> runs on a goroutine of its own and calls the handler there. For a
  streaming method it first starts a second goroutine, which writes what the handler
  sends; the two meet on the unbuffered channels sendChan and errChan, the fields Send and
  Error of the handler's Stream. What a handler does with them is a program: send a
  value, receive from \<^verbatim>\<open>Stream.Error\<close>, select between both, and in the end return nil
  (\<open>None\<close>) or an error with a message. A handler of a unary method has no Stream and only
  returns.
\<close>

datatype handler =
    Send rvalue handler
  | RecvError handler
  | SelectSendError rvalue handler handler
  | Return "string option"

text \<open>
  Where the second goroutine stands: at its \<^verbatim>\<open>select\<close>, in sendResponse with the data it
  received, blocked in \<^verbatim>\<open>errChan <- e\<close>, or returned (which closes sendDone).
\<close>

datatype pumper = NotStarted | AtSelect | Sending rvalue | Pushing codec_err | Exited

text \<open>
  Where call itself stands: in \<^verbatim>\<open>function.Call\<close>, after it with the error the handler
  returned (waiting for sendDone on the streaming path), returned, or stopped by a panic.
\<close>

datatype executor = Calling | Waiting "string option" | Finished "string option" | Panicked

datatype event = Called "rvalue list" | Wrote frame | ClosedDone chan

record exec =
  x_server :: Server
  x_codec :: codec
  x_mtype :: methodType
  x_handler :: handler
  x_pc :: executor
  x_pumper :: pumper
  x_streamErr :: "codec_err option"
  x_funcDone :: bool
  x_sendDone :: bool
  x_eof :: bool
  x_stop :: bool
  x_trace :: "event list"

text \<open>\<^verbatim>\<open>reflect.ValueOf(Stream{sendChan, errChan})\<close>\<close>

definition streamValue :: rvalue where
  "streamValue = Dat typeOfStream 0"

text \<open>The arguments of \<^verbatim>\<open>function.Call\<close>; \<open>lastArg\<close> is the reply or the stream.\<close>

definition callArgs :: "service \<Rightarrow> call \<Rightarrow> rvalue \<Rightarrow> rvalue list" where
  "callArgs s c lastArg =
     (if TakesContext (c_mtype c) then [s_rcvr s, c_context c, c_argv c, lastArg]
      else [s_rcvr s, c_argv c, lastArg])"

text \<open>
  The start of call: the call counter goes up, then the unary path calls the handler, and
  the streaming path starts the second goroutine and calls the handler. Calling with the
  zero \<^verbatim>\<open>reflect.Value\<close> as the reply panics. The channels eof and stop may be closed already.
\<close>

definition callStart :: "service \<Rightarrow> call \<Rightarrow> handler \<Rightarrow> Server \<Rightarrow> codec \<Rightarrow> bool \<Rightarrow> bool \<Rightarrow> exec" where
  "callStart s c h server0 cd eofClosed stopClosed =
     (let mt = (c_mtype c)\<lparr>numCalls := numCalls (c_mtype c) + 1\<rparr>;
          st = \<lparr>x_server = server0, x_codec = cd, x_mtype = mt, x_handler = h, x_pc = Calling,
                x_pumper = NotStarted, x_streamErr = None, x_funcDone = False,
                x_sendDone = False, x_eof = eofClosed, x_stop = stopClosed, x_trace = []\<rparr>
      in if \<not> stream (c_mtype c) then
           (case c_replyv c of
              None \<Rightarrow> st\<lparr>x_pc := Panicked\<rparr>
            | Some replyv \<Rightarrow> st\<lparr>x_trace := [Called (callArgs s c replyv)]\<rparr>)
         else st\<lparr>x_pumper := AtSelect, x_trace := [Called (callArgs s c streamValue)]\<rparr>)"

text \<open>
  A call of sendResponse by the executor: the server and the codec change, and the trace
  gets the frames the codec was handed.
\<close>

definition execSend :: "exec \<Rightarrow> Request \<Rightarrow> rvalue \<Rightarrow> string \<Rightarrow> bool \<Rightarrow> exec \<times> codec_err option" where
  "execSend st req reply errmsg isLast =
     (let (server1, codec1, err) = sendResponse (x_server st) (x_codec st) req reply errmsg isLast
      in (st\<lparr>x_server := server1, x_codec := codec1,
              x_trace := x_trace st
                @ map Wrote (drop (length (c_written (x_codec st))) (c_written codec1))\<rparr>, err))"

text \<open>
  The end of both paths: the terminal sendResponse, freeRequest, \<^verbatim>\<open>close(c.done)\<close>, return.
\<close>

definition lastResponse :: "call \<Rightarrow> exec \<Rightarrow> rvalue \<Rightarrow> string \<Rightarrow> string option \<Rightarrow> exec" where
  "lastResponse c st reply errmsg r =
     (let (st1, e) = execSend st (c_req c) reply errmsg True;
          st2 = st1\<lparr>x_server := freeRequest (x_server st1) (c_req c)\<rparr>
      in st2\<lparr>x_trace := x_trace st2 @ [ClosedDone (c_done c)], x_pc := Finished r\<rparr>)"

text \<open>The steps the handler's goroutine can take next.\<close>

definition executorSteps :: "call \<Rightarrow> exec \<Rightarrow> exec list" where
  "executorSteps c st =
     (case x_pc st of
        Calling \<Rightarrow>
          if \<not> stream (c_mtype c) then
            (case (x_handler st, c_replyv c) of
               (Return r, Some replyv) \<Rightarrow>
                 [lastResponse c st replyv (case r of None \<Rightarrow> [] | Some m \<Rightarrow> m) r]
             | _ \<Rightarrow> [])
          else
            (case x_handler st of
               Return r \<Rightarrow> [st\<lparr>x_funcDone := True, x_pc := Waiting r\<rparr>]
             | Send v k \<Rightarrow>
                 (if x_pumper st = AtSelect then [st\<lparr>x_handler := k, x_pumper := Sending v\<rparr>]
                  else [])
             | RecvError k \<Rightarrow>
                 (case x_pumper st of
                    Pushing e \<Rightarrow> [st\<lparr>x_handler := k, x_pumper := Exited, x_sendDone := True\<rparr>]
                  | _ \<Rightarrow> [])
             | SelectSendError v k1 k2 \<Rightarrow>
                 (if x_pumper st = AtSelect then [st\<lparr>x_handler := k1, x_pumper := Sending v\<rparr>]
                  else [])
                 @ (case x_pumper st of
                      Pushing e \<Rightarrow> [st\<lparr>x_handler := k2, x_pumper := Exited, x_sendDone := True\<rparr>]
                    | _ \<Rightarrow> []))
      | Waiting r \<Rightarrow>
          if x_sendDone st then
            [lastResponse c st NilV
               (case r of
                  Some m \<Rightarrow> m
                | None \<Rightarrow> (case x_streamErr st of
                              Some e \<Rightarrow> codec_Error e
                            | None \<Rightarrow> lastStreamResponseError)) r]
          else []
      | Finished r \<Rightarrow> []
      | Panicked \<Rightarrow> [])"

text \<open>
  The steps the second goroutine can take on its own (receiving from sendChan and the send
  on errChan are steps of the handler above, the two being unbuffered).
\<close>

definition pumperSteps :: "call \<Rightarrow> exec \<Rightarrow> exec list" where
  "pumperSteps c st =
     (case x_pumper st of
        AtSelect \<Rightarrow>
          (if x_funcDone st then [st\<lparr>x_pumper := Exited, x_sendDone := True\<rparr>] else [])
          @ (if x_eof st then [st\<lparr>x_pumper := Pushing EOF\<rparr>] else [])
          @ (if x_stop st then [st\<lparr>x_pumper := Pushing EOF\<rparr>] else [])
      | Sending v \<Rightarrow>
          (let (st1, err) = execSend st (c_req c) v [] False;
               st2 = st1\<lparr>x_streamErr := err\<rparr>
           in case err of
                Some e \<Rightarrow> [st2\<lparr>x_pumper := Pushing e\<rparr>]
              | None \<Rightarrow> [st2\<lparr>x_pumper := AtSelect\<rparr>])
      | _ \<Rightarrow> [])"

text \<open>What happens around the call: the reader closes eof, a CloseStream closes stop.\<close>

definition signalSteps :: "exec \<Rightarrow> exec list" where
  "signalSteps st =
     (if x_eof st then [] else [st\<lparr>x_eof := True\<rparr>])
     @ (if x_stop st then [] else [st\<lparr>x_stop := True\<rparr>])"

definition steps :: "call \<Rightarrow> exec \<Rightarrow> exec list" where
  "steps c st = executorSteps c st @ pumperSteps c st @ signalSteps st"

text \<open>The states a call can be in, from a given start.\<close>

inductive_set reach :: "call \<Rightarrow> exec \<Rightarrow> exec set" for c :: call and st0 :: exec where
  start: "st0 \<in> reach c st0"
| step: "st \<in> reach c st0 \<Longrightarrow> st' \<in> set (steps c st) \<Longrightarrow> st' \<in> reach c st0"

text \<open>Reading a trace: its terminal frames, and how often done was closed.\<close>

fun terminalFrames :: "event list \<Rightarrow> frame list" where
  "terminalFrames [] = []"
| "terminalFrames (Wrote (r, body, True) # es) = (r, body, True) # terminalFrames es"
| "terminalFrames (e # es) = terminalFrames es"

fun doneCloses :: "event list \<Rightarrow> nat" where
  "doneCloses [] = 0"
| "doneCloses (ClosedDone ch # es) = Suc (doneCloses es)"
| "doneCloses (e # es) = doneCloses es"

section \<open>Requests that cannot be routed\<close>



section \<open>An invariant of the executor\<close>

text \<open>
  The trace of a call that has returned: one terminal frame for the request, then the
  close of done, and before them neither. The error of the frame is the handler's, or
  else the end-of-stream marker on the streaming path and nothing on the unary path.
\<close>

definition finalTrace :: "call \<Rightarrow> string option \<Rightarrow> event list \<Rightarrow> bool" where
  "finalTrace c r tr' =
     (\<exists>tr resp body.
        tr' = tr @ [Wrote (resp, body, True), ClosedDone (c_done c)] \<and>
        terminalFrames tr = [] \<and> doneCloses tr = 0 \<and>
        resp_ServiceMethod resp = req_ServiceMethod (c_req c) \<and>
        resp_Seq resp = req_Seq (c_req c) \<and>
        resp_Error resp =
          (case r of
             Some m \<Rightarrow> m
           | None \<Rightarrow> if stream (c_mtype c) then lastStreamResponseError else []))"

text \<open>
  What holds in every state of a call: streamErr is nil, the second goroutine pushes
  nothing but \<^verbatim>\<open>io.EOF\<close>, sendDone is closed exactly when that goroutine has returned, and the
  trace is as the position of call says.
\<close>

definition callInv :: "call \<Rightarrow> exec \<Rightarrow> bool" where
  "callInv c st =
     (x_streamErr st = None \<and>
      (\<forall>e. x_pumper st = Pushing e \<longrightarrow> e = EOF) \<and>
      x_sendDone st = (x_pumper st = Exited) \<and>
      (x_pumper st = NotStarted) = (\<not> stream (c_mtype c)) \<and>
      ((\<forall>r. x_pc st \<noteq> Finished r) \<longrightarrow>
          terminalFrames (x_trace st) = [] \<and> doneCloses (x_trace st) = 0) \<and>
      (x_pc st = Calling \<and> \<not> stream (c_mtype c) \<longrightarrow> c_replyv c \<noteq> None) \<and>
      (\<forall>r. x_pc st = Waiting r \<longrightarrow>
          x_handler st = Return r \<and> stream (c_mtype c) \<and> x_funcDone st) \<and>
      (\<forall>r. x_pc st = Finished r \<longrightarrow>
          x_handler st = Return r \<and> (x_pumper st = Exited \<or> x_pumper st = NotStarted) \<and>
          finalTrace c r (x_trace st)))"

section \<open>Running a call under a schedule\<close>

text \<open>
  A schedule picks, by its number in the list of possible steps, the step taken next. A
  schedule that asks for a step that is not there has no run.
\<close>

fun run :: "call \<Rightarrow> nat list \<Rightarrow> exec \<Rightarrow> exec option" where
  "run c [] st = Some st"
| "run c (i # is) st = (if i < length (steps c st) then run c is (steps c st ! i) else None)"


section \<open>Example inputs\<close>

text \<open>The method \<^verbatim>\<open>func (t *Arith) Multiply(args *Args, reply *int) error\<close> of the package comment.\<close>

definition Multiply :: Method where
  "Multiply = \<lparr>m_Name = ''Multiply'', m_PkgPath = [],
      m_In = [Ptr (Base ''Arith'' ''main''), Ptr (Base ''Args'' ''main''), Ptr (Base ''int'' [])],
      m_Out = [typeOfError]\<rparr>"

text \<open>
  A method with a context parameter of type int:
  \<^verbatim>\<open>func (t *Arith) Scale(ctx int, args *Args, reply *int) error\<close>.
\<close>

definition Scale :: Method where
  "Scale = \<lparr>m_Name = ''Scale'', m_PkgPath = [],
      m_In = [Ptr (Base ''Arith'' ''main''), Base ''int'' [], Ptr (Base ''Args'' ''main''),
              Ptr (Base ''int'' [])],
      m_Out = [typeOfError]\<rparr>"

text \<open>The receiver \<^verbatim>\<open>new(Arith)\<close> with these two methods.\<close>

definition arith :: receiver where
  "arith = \<lparr>r_value = PtrTo (Zero (Base ''Arith'' ''main'')), r_typ = Ptr (Base ''Arith'' ''main''),
      r_methods = [Multiply, Scale]\<rparr>"

text \<open>A codec with nothing to read, whose writes succeed, and a request header.\<close>

definition codec0 :: codec where
  "codec0 = \<lparr>c_headers = [], c_bodies = [], c_wresults = [], c_written = [], c_closed = False\<rparr>"

definition req7 :: Request where
  "req7 = \<lparr>req_ServiceMethod = ''Arith.Divide'', req_Seq = 7\<rparr>"

text \<open>The state in which ServeCodecWithContext enters its loop.\<close>

definition connOf :: "Server \<Rightarrow> codec \<Rightarrow> conn" where
  "connOf server cd = \<lparr>srv = server, cdc = cd, stopChans = Map.empty, requestLogMap = Map.empty,
     closedChans = [], nchans = 1, spawned = [], emitted = [], warnings = []\<rparr>"







text \<open>A CloseStream request for the live stream 5, whose stop channel is channel 2.\<close>

definition reqClose :: Request where
  "reqClose = \<lparr>req_ServiceMethod = ''CloseStream'', req_Seq = 5\<rparr>"

definition connStreaming :: conn where
  "connStreaming = (connOf NewServer (codec0\<lparr>c_headers := [Inr reqClose], c_bodies := [Inr NilV]\<rparr>))
     \<lparr>stopChans := [5 \<mapsto> 2], nchans := 3\<rparr>"








text \<open>
  A streaming method, \<^verbatim>\<open>func (t *Counter) Count(n int, stream Stream) error\<close>, and a call of
  it with sequence number 5.
\<close>

definition Count :: Method where
  "Count = \<lparr>m_Name = ''Count'', m_PkgPath = [],
      m_In = [Ptr (Base ''Counter'' ''main''), Base ''int'' [], typeOfStream],
      m_Out = [typeOfError]\<rparr>"

definition countType :: methodType where
  "countType = \<lparr>mt_method = Count, ArgType = Base ''int'' [], ReplyType = typeOfStream,
     ContextType = None, stream = True, numCalls = 0\<rparr>"

definition counterService :: service where
  "counterService = \<lparr>s_name = ''Counter'', s_rcvr = PtrTo (Zero (Base ''Counter'' ''main'')),
     s_typ = Ptr (Base ''Counter'' ''main''), s_method = [(''Count'', countType)]\<rparr>"

definition reqCount :: Request where
  "reqCount = \<lparr>req_ServiceMethod = ''Counter.Count'', req_Seq = 5\<rparr>"

definition callCount :: call where
  "callCount = \<lparr>c_mtype = countType, c_req = reqCount, c_argv = Dat (Base ''int'' []) 3,
     c_replyv = None, c_context = PtrTo (Zero typeOfString), c_eof = 0, c_stop = 2, c_done = 1\<rparr>"








definition codecBroken :: codec where
  "codecBroken = codec0\<lparr>c_wresults := [Some (OtherErr ''broken pipe'')]\<rparr>"

definition brokenStart :: exec where
  "brokenStart = callStart counterService callCount
     (Send (Dat (Base ''int'' []) 1) (Return None)) NewServer codecBroken False False"


section \<open>The method validator accepts the documented shapes\<close>



section \<open>The validator and the context type\<close>

text \<open>
  C9, as stated, fails: prepareMethod accepts the method Scale, whose context parameter is
  an int, and Register installs it on a new server, whose configured context type is string.
\<close>

theorem prepareMethod_context_counterexample:
  "prepareMethod Scale \<noteq> None \<and> length (m_In Scale) = 4 \<and> m_In Scale ! 1 \<noteq> contextType NewServer
   \<and> snd (Register NewServer arith) = Returned None"
  by (simp add: prepareMethod_def methodIns_def Scale_def Multiply_def NewServer_def typeOfString_def
      typeOfError_def typeOfStream_def isExported_def isUpper_def Register_def register_def arith_def
      Let_def)

lemma prepareMethod_four:
  "prepareMethod (mth\<lparr>m_In := [rcvr, ctx, arg, reply]\<rparr>) =
     (if m_PkgPath mth \<noteq> [] \<or> \<not> isExportedOrBuiltinType arg
         \<or> (reply \<noteq> typeOfStream \<and> \<not> isPtr reply) \<or> \<not> isExportedOrBuiltinType reply
         \<or> length (m_Out mth) \<noteq> 1 \<or> m_Out mth ! 0 \<noteq> typeOfError
      then None
      else Some \<lparr>mt_method = mth\<lparr>m_In := [rcvr, ctx, arg, reply]\<rparr>, ArgType = arg,
             ReplyType = reply, ContextType = Some ctx, stream = (reply = typeOfStream),
             numCalls = 0\<rparr>)"
  by (simp add: prepareMethod_def methodIns_def)

text \<open>
  C9, amended. For a method with three parameters after the receiver, prepareMethod does
  not look at the type of the context parameter: with any other context type in its place
  the method is accepted or rejected alike, and the descriptor of an accepted method
  records the declared type as its ContextType. What register returns does not depend on
  the context type set with SetContextType.
\<close>

theorem prepareMethod_ignores_context_type:
  "(prepareMethod (mth\<lparr>m_In := [rcvr, ctx, arg, reply]\<rparr>) = None)
     = (prepareMethod (mth\<lparr>m_In := [rcvr, ctx', arg, reply]\<rparr>) = None)
   \<and> (\<forall>mt. prepareMethod (mth\<lparr>m_In := [rcvr, ctx, arg, reply]\<rparr>) = Some mt \<longrightarrow>
         ContextType mt = Some ctx)
   \<and> snd (register (SetContextType server ty) r name useName)
       = snd (register server r name useName)"
proof (intro conjI)
  show "(prepareMethod (mth\<lparr>m_In := [rcvr, ctx, arg, reply]\<rparr>) = None)
     = (prepareMethod (mth\<lparr>m_In := [rcvr, ctx', arg, reply]\<rparr>) = None)"
    by (simp only: prepareMethod_four) simp
  show "\<forall>mt. prepareMethod (mth\<lparr>m_In := [rcvr, ctx, arg, reply]\<rparr>) = Some mt \<longrightarrow>
         ContextType mt = Some ctx"
    by (simp only: prepareMethod_four) (auto split: if_splits)
  show "snd (register (SetContextType server ty) r name useName)
       = snd (register server r name useName)"
    by (simp add: register_def SetContextType_def Let_def)
qed

text \<open>
  Scale is accepted and its descriptor records the context type int, which is not the
  context type of a new server.
\<close>

theorem prepareMethod_ignores_context_type_witness:
  "\<exists>mt. prepareMethod Scale = Some mt \<and> ContextType mt = Some (Base ''int'' [])
      \<and> ContextType mt \<noteq> Some (contextType NewServer)"
  using prepareMethod_ignores_context_type[where mth = Scale
      and rcvr = "Ptr (Base ''Arith'' ''main'')" and ctx = "Base ''int'' []"
      and arg = "Ptr (Base ''Args'' ''main'')" and reply = "Ptr (Base ''int'' [])"
      and ctx' = "Base ''int'' []" and server = NewServer and ty = typeOfString and r = arith
      and name = "[]" and useName = False]
  by (auto simp: prepareMethod_def methodIns_def Scale_def NewServer_def typeOfString_def
      typeOfError_def typeOfStream_def isExported_def isUpper_def)

section \<open>Registration\<close>







section \<open>Responses\<close>

lemma sendResponse_written:
  "\<exists>resp body. c_written (fst (snd (sendResponse server cd req reply errmsg isLast)))
        = c_written cd @ [(resp, body, isLast)] \<and>
      resp_ServiceMethod resp = req_ServiceMethod req \<and> resp_Seq resp = req_Seq req \<and>
      resp_Error resp = errmsg \<and> body = (if errmsg \<noteq> [] then invalidRequest else reply)"
  by (simp add: sendResponse_def getResponse_def WriteResponse_def freeResponse_def zeroResponse_def
      Let_def split_beta split: list.splits)


lemma sendResponse_nil: "snd (snd (sendResponse server cd req reply errmsg isLast)) = None"
  by (simp add: sendResponse_def Let_def split_beta)

text \<open>
  C8. Every call of sendResponse hands the codec one frame more. Its header carries the
  service method and the sequence number of the request header, and the error string
  given. When the error string is not empty the body is invalidRequest in place of the
  reply given; when it is empty the body is the reply given.
\<close>

theorem sendResponse_frame:
  "sendResponse server cd req reply errmsg isLast = (server', cd', err) \<Longrightarrow>
     \<exists>resp body. c_written cd' = c_written cd @ [(resp, body, isLast)] \<and>
        resp_ServiceMethod resp = req_ServiceMethod req \<and> resp_Seq resp = req_Seq req \<and>
        resp_Error resp = errmsg \<and>
        (errmsg \<noteq> [] \<longrightarrow> body = invalidRequest) \<and> (errmsg = [] \<longrightarrow> body = reply)"
  by (auto simp: sendResponse_def getResponse_def WriteResponse_def freeResponse_def zeroResponse_def
      Let_def split: list.splits prod.splits if_splits)

text \<open>
  A response with the error \<^verbatim>\<open>divide by zero\<close>: the frame echoes
  the method and the sequence number 7, and its body is invalidRequest, not the reply 56.
\<close>

theorem sendResponse_frame_witness:
  "\<exists>resp. c_written (fst (snd (sendResponse NewServer codec0 req7 (Dat (Base ''int'' []) 56)
        ''divide by zero'' True))) = [(resp, invalidRequest, True)] \<and>
      resp_ServiceMethod resp = ''Arith.Divide'' \<and> resp_Seq resp = 7 \<and>
      resp_Error resp = ''divide by zero''"
proof -
  obtain sv cd e where r: "sendResponse NewServer codec0 req7 (Dat (Base ''int'' []) 56)
        ''divide by zero'' True = (sv, cd, e)"
    by (metis prod_cases3)
  from sendResponse_frame[OF r] r show ?thesis
    by (auto simp: codec0_def req7_def)
qed

section \<open>What one turn of the serving loop does\<close>



lemma header_close:
  "c_headers cd = Inr req # hs \<Longrightarrow> req_ServiceMethod req = ''CloseStream'' \<Longrightarrow>
     \<exists>res. readRequestHeader server cd = (fst (getRequest server), cd\<lparr>c_headers := hs\<rparr>, res)
       \<and> rr_keepReading res \<and> rr_err res = Some errCloseStream \<and> rr_req res = Some req"
  by (simp add: readRequestHeader_def ReadRequestHeader_def no_read_def split_beta)



lemma readRequest_header_error:
  "readRequestHeader server cd = (s1, c1, res) \<Longrightarrow> rr_err res \<noteq> None \<Longrightarrow>
     readRequest server cd
       = Some (s1, if rr_keepReading res then fst (ReadRequestBody c1) else c1, res)"
  by (simp add: readRequest_def split_beta)




lemma iteration_close:
  "readRequest (srv st) (cdc st) = Some (s1, c1, res) \<Longrightarrow> rr_err res = Some errCloseStream \<Longrightarrow>
   rr_req res = Some req \<Longrightarrow>
     serveIteration eof contextVal st =
       (st\<lparr>srv := s1, cdc := c1, spawned := spawned st @ [CloseStreamTask (req_Seq req)]\<rparr>, Continue)"
  by (simp add: serveIteration_def split_beta Let_def)







lemma maybeLog_same:
  "stopChans (maybeLog seq t) = stopChans t \<and> closedChans (maybeLog seq t) = closedChans t \<and>
   cdc (maybeLog seq t) = cdc t \<and> spawned (maybeLog seq t) = spawned t \<and> srv (maybeLog seq t) = srv t"
  by (simp add: maybeLog_def split: option.splits)

text \<open>
  C7. For a request whose header names the service method CloseStream: the turn of the
  loop reads the body and drops it, writes no response, starts no call and only the
  goroutine of the cancellation, and goes on. That goroutine, whatever live streams there
  are when it runs, removes the entry of the request's sequence number from stopChans and
  closes its stop channel if there is an entry; if there is none, stopChans stays as it
  is and no channel is closed. It writes no response either.
\<close>

theorem closeStream_request:
  assumes hd: "c_headers (cdc st) = Inr req # hs"
    and cs: "req_ServiceMethod req = ''CloseStream''"
    and it: "serveIteration eof contextVal st = (st', out)"
  shows "out = Continue \<and>
     c_bodies (cdc st') = tl (c_bodies (cdc st)) \<and>
     c_written (cdc st') = c_written (cdc st) \<and>
     spawned st' = spawned st @ [CloseStreamTask (req_Seq req)] \<and>
     stopChans st' = stopChans st \<and> closedChans st' = closedChans st \<and>
     stopChans (closeStreamTask (req_Seq req) t) = (stopChans t)(req_Seq req := None) \<and>
     closedChans (closeStreamTask (req_Seq req) t)
       = (case stopChans t (req_Seq req) of None \<Rightarrow> closedChans t | Some ch \<Rightarrow> closedChans t @ [ch]) \<and>
     (stopChans t (req_Seq req) = None \<longrightarrow> stopChans (closeStreamTask (req_Seq req) t) = stopChans t) \<and>
     c_written (cdc (closeStreamTask (req_Seq req) t)) = c_written (cdc t) \<and>
     spawned (closeStreamTask (req_Seq req) t) = spawned t"
proof -
  from header_close[OF hd cs, of "srv st"] obtain res where
    r: "readRequestHeader (srv st) (cdc st) = (fst (getRequest (srv st)), (cdc st)\<lparr>c_headers := hs\<rparr>, res)"
      "rr_keepReading res" "rr_err res = Some errCloseStream" "rr_req res = Some req"
    by auto
  have rr: "readRequest (srv st) (cdc st)
      = Some (fst (getRequest (srv st)), fst (ReadRequestBody ((cdc st)\<lparr>c_headers := hs\<rparr>)), res)"
    using readRequest_header_error[OF r(1)] r(2,3) by simp
  from iteration_close[OF rr r(3,4)] it
  have a: "out = Continue \<and> c_bodies (cdc st') = tl (c_bodies (cdc st)) \<and>
     c_written (cdc st') = c_written (cdc st) \<and>
     spawned st' = spawned st @ [CloseStreamTask (req_Seq req)] \<and>
     stopChans st' = stopChans st \<and> closedChans st' = closedChans st"
    by (auto simp: ReadRequestBody_def split: list.splits)
  have b: "stopChans (closeStreamTask (req_Seq req) t) = (stopChans t)(req_Seq req := None) \<and>
     closedChans (closeStreamTask (req_Seq req) t)
       = (case stopChans t (req_Seq req) of None \<Rightarrow> closedChans t | Some ch \<Rightarrow> closedChans t @ [ch]) \<and>
     c_written (cdc (closeStreamTask (req_Seq req) t)) = c_written (cdc t) \<and>
     spawned (closeStreamTask (req_Seq req) t) = spawned t"
    by (simp add: closeStreamTask_def maybeLog_same Let_def split: option.splits)
  have c: "stopChans t (req_Seq req) = None \<longrightarrow> stopChans (closeStreamTask (req_Seq req) t) = stopChans t"
    using b by auto
  from a b c show ?thesis by simp
qed

text \<open>
  A CloseStream for the live stream 5: nothing is written, the body is dropped, only the
  cancellation is started, and it removes the entry of 5 and closes channel 2.
\<close>

theorem closeStream_request_witness:
  "snd (serveIteration 0 NilV connStreaming) = Continue \<and>
   c_written (cdc (fst (serveIteration 0 NilV connStreaming))) = [] \<and>
   c_bodies (cdc (fst (serveIteration 0 NilV connStreaming))) = [] \<and>
   spawned (fst (serveIteration 0 NilV connStreaming)) = [CloseStreamTask 5] \<and>
   stopChans (closeStreamTask 5 (fst (serveIteration 0 NilV connStreaming))) 5 = None \<and>
   closedChans (closeStreamTask 5 (fst (serveIteration 0 NilV connStreaming))) = [2]"
proof -
  obtain st' out where r: "serveIteration 0 NilV connStreaming = (st', out)"
    by force
  have hd: "c_headers (cdc connStreaming) = Inr reqClose # []"
    by (simp add: connStreaming_def connOf_def)
  have cs: "req_ServiceMethod reqClose = ''CloseStream''"
    by (simp add: reqClose_def)
  from closeStream_request[OF hd cs r, of st'] r show ?thesis
    by (simp add: connStreaming_def connOf_def codec0_def reqClose_def)
qed


section \<open>The context of a connection served without one\<close>














section \<open>The executor: the terminal frame and done\<close>

lemma terminalFrames_append:
  "terminalFrames (tr @ tr') = terminalFrames tr @ terminalFrames tr'"
  by (induction tr rule: terminalFrames.induct) auto

lemma doneCloses_append: "doneCloses (tr @ tr') = doneCloses tr + doneCloses tr'"
  by (induction tr rule: doneCloses.induct) auto

lemma execSend_effect:
  "\<exists>sv cd' resp body. execSend st req reply errmsg isLast =
       (st\<lparr>x_server := sv, x_codec := cd', x_trace := x_trace st @ [Wrote (resp, body, isLast)]\<rparr>, None)
     \<and> resp_ServiceMethod resp = req_ServiceMethod req \<and> resp_Seq resp = req_Seq req
     \<and> resp_Error resp = errmsg \<and> body = (if errmsg \<noteq> [] then invalidRequest else reply)"
proof -
  from sendResponse_written[of "x_server st" "x_codec st" req reply errmsg isLast]
  obtain resp body where
    w: "c_written (fst (snd (sendResponse (x_server st) (x_codec st) req reply errmsg isLast)))
          = c_written (x_codec st) @ [(resp, body, isLast)]"
      "resp_ServiceMethod resp = req_ServiceMethod req" "resp_Seq resp = req_Seq req"
      "resp_Error resp = errmsg" "body = (if errmsg \<noteq> [] then invalidRequest else reply)"
    by blast
  have "execSend st req reply errmsg isLast =
       (st\<lparr>x_server := fst (sendResponse (x_server st) (x_codec st) req reply errmsg isLast),
           x_codec := fst (snd (sendResponse (x_server st) (x_codec st) req reply errmsg isLast)),
           x_trace := x_trace st @ [Wrote (resp, body, isLast)]\<rparr>, None)"
    using w(1) sendResponse_nil[of "x_server st" "x_codec st" req reply errmsg isLast]
    by (simp add: execSend_def split_beta)
  with w(2-5) show ?thesis
    by blast
qed

lemma lastResponse_effect:
  "\<exists>sv cd' resp body. lastResponse c st reply errmsg r =
       st\<lparr>x_server := sv, x_codec := cd',
          x_trace := x_trace st @ [Wrote (resp, body, True), ClosedDone (c_done c)],
          x_pc := Finished r\<rparr>
     \<and> resp_ServiceMethod resp = req_ServiceMethod (c_req c) \<and> resp_Seq resp = req_Seq (c_req c)
     \<and> resp_Error resp = errmsg \<and> body = (if errmsg \<noteq> [] then invalidRequest else reply)"
proof -
  from execSend_effect[of st "c_req c" reply errmsg True]
  obtain sv cd' resp body where
    e: "execSend st (c_req c) reply errmsg True =
       (st\<lparr>x_server := sv, x_codec := cd', x_trace := x_trace st @ [Wrote (resp, body, True)]\<rparr>, None)"
      "resp_ServiceMethod resp = req_ServiceMethod (c_req c)" "resp_Seq resp = req_Seq (c_req c)"
      "resp_Error resp = errmsg" "body = (if errmsg \<noteq> [] then invalidRequest else reply)"
    by blast
  have "lastResponse c st reply errmsg r =
       st\<lparr>x_server := freeRequest sv (c_req c), x_codec := cd',
          x_trace := x_trace st @ [Wrote (resp, body, True), ClosedDone (c_done c)],
          x_pc := Finished r\<rparr>"
    using e(1) by (simp add: lastResponse_def Let_def)
  with e(2-5) show ?thesis
    by blast
qed


lemma callInv_start: "callInv c (callStart s c h server cd e0 s0)"
  by (simp add: callInv_def callStart_def Let_def split: option.splits)

lemma callInv_lastResponse:
  assumes inv: "callInv c st"
    and pc: "x_pc st = Calling \<and> \<not> stream (c_mtype c) \<or> x_pc st = Waiting r \<and> x_sendDone st"
    and h: "x_handler st = Return r"
    and msg: "errmsg = (case r of Some m \<Rightarrow> m
                | None \<Rightarrow> if stream (c_mtype c) then lastStreamResponseError else [])"
  shows "callInv c (lastResponse c st reply errmsg r)"
proof -
  from lastResponse_effect[of c st reply errmsg r] obtain sv cd' resp body where
    e: "lastResponse c st reply errmsg r =
       st\<lparr>x_server := sv, x_codec := cd',
          x_trace := x_trace st @ [Wrote (resp, body, True), ClosedDone (c_done c)],
          x_pc := Finished r\<rparr>"
      "resp_ServiceMethod resp = req_ServiceMethod (c_req c)" "resp_Seq resp = req_Seq (c_req c)"
      "resp_Error resp = errmsg"
    by blast
  from inv pc have q: "terminalFrames (x_trace st) = []" "doneCloses (x_trace st) = 0"
      "x_pumper st = Exited \<or> x_pumper st = NotStarted"
    by (auto simp: callInv_def)
  from inv have rest: "x_streamErr st = None" "\<forall>e. x_pumper st = Pushing e \<longrightarrow> e = EOF"
      "x_sendDone st = (x_pumper st = Exited)" "(x_pumper st = NotStarted) = (\<not> stream (c_mtype c))"
    by (auto simp: callInv_def)
  have "finalTrace c r (x_trace st @ [Wrote (resp, body, True), ClosedDone (c_done c)])"
    unfolding finalTrace_def using q(1,2) e(2-4) msg by blast
  then show ?thesis
    unfolding e(1) callInv_def using q(3) rest h
    by simp
qed

lemma unary_step:
  "x_pc st = Calling \<Longrightarrow> \<not> stream (c_mtype c) \<Longrightarrow> st' \<in> set (executorSteps c st) \<Longrightarrow>
     \<exists>r replyv. x_handler st = Return r \<and> c_replyv c = Some replyv \<and>
        st' = lastResponse c st replyv (case r of None \<Rightarrow> [] | Some m \<Rightarrow> m) r"
  by (cases "x_handler st"; cases "c_replyv c") (simp_all add: executorSteps_def)

lemma waiting_step:
  "x_pc st = Waiting r \<Longrightarrow> st' \<in> set (executorSteps c st) \<Longrightarrow>
     x_sendDone st \<and> st' = lastResponse c st NilV
        (case r of Some m \<Rightarrow> m
         | None \<Rightarrow> (case x_streamErr st of Some e \<Rightarrow> codec_Error e
                     | None \<Rightarrow> lastStreamResponseError)) r"
  by (cases "x_sendDone st") (simp_all add: executorSteps_def)

lemma callInv_executor:
  assumes inv: "callInv c st" and st': "st' \<in> set (executorSteps c st)"
  shows "callInv c st'"
proof (cases "x_pc st")
  case Calling
  show ?thesis
  proof (cases "stream (c_mtype c)")
    case False
    from unary_step[OF Calling False st'] obtain r replyv where
      a: "x_handler st = Return r" "st' = lastResponse c st replyv (case r of None \<Rightarrow> [] | Some m \<Rightarrow> m) r"
      by blast
    have "(case r of None \<Rightarrow> [] | Some m \<Rightarrow> m) = (case r of Some m \<Rightarrow> m
                | None \<Rightarrow> if stream (c_mtype c) then lastStreamResponseError else [])"
      using False by (simp split: option.splits)
    from callInv_lastResponse[OF inv _ a(1) this] Calling False a(2) show ?thesis
      by simp
  next
    case True
    show ?thesis
    proof (cases "x_handler st")
      case (Send v k)
      with Calling True st' inv show ?thesis
        by (cases "x_pumper st = AtSelect") (auto simp: executorSteps_def callInv_def)
    next
      case (RecvError k)
      with Calling True st' inv show ?thesis
        by (cases "x_pumper st") (auto simp: executorSteps_def callInv_def)
    next
      case (SelectSendError v k1 k2)
      with Calling True st' inv show ?thesis
        by (cases "x_pumper st") (auto simp: executorSteps_def callInv_def)
    next
      case (Return r)
      with Calling True st' inv show ?thesis
        by (auto simp: executorSteps_def callInv_def)
    qed
  qed
next
  case (Waiting r)
  from inv Waiting have w: "x_handler st = Return r" "stream (c_mtype c)" "x_streamErr st = None"
    by (auto simp: callInv_def)
  from waiting_step[OF Waiting st'] w(3) have
    a: "x_sendDone st" "st' = lastResponse c st NilV (case r of Some m \<Rightarrow> m | None \<Rightarrow> lastStreamResponseError) r"
    by (cases r; simp)+
  have "(case r of Some m \<Rightarrow> m | None \<Rightarrow> lastStreamResponseError) = (case r of Some m \<Rightarrow> m
                | None \<Rightarrow> if stream (c_mtype c) then lastStreamResponseError else [])"
    using w(2) by (simp split: option.splits)
  from callInv_lastResponse[OF inv _ w(1) this] Waiting a show ?thesis
    by simp
next
  case (Finished r)
  with st' show ?thesis by (simp add: executorSteps_def)
next
  case Panicked
  with st' show ?thesis by (simp add: executorSteps_def)
qed


lemma callInv_pumper:
  assumes inv: "callInv c st" and st': "st' \<in> set (pumperSteps c st)"
  shows "callInv c st'"
proof (cases "x_pumper st")
  case (Sending v)
  from execSend_effect[of st "c_req c" v "[]" False] obtain sv cd' resp body where
    e: "execSend st (c_req c) v [] False =
       (st\<lparr>x_server := sv, x_codec := cd', x_trace := x_trace st @ [Wrote (resp, body, False)]\<rparr>, None)"
    by blast
  with Sending st' have
    "st' = st\<lparr>x_server := sv, x_codec := cd', x_trace := x_trace st @ [Wrote (resp, body, False)],
             x_streamErr := None, x_pumper := AtSelect\<rparr>"
    by (simp add: pumperSteps_def)
  with inv Sending show ?thesis
    by (auto simp: callInv_def terminalFrames_append doneCloses_append)
next
  case AtSelect
  with inv st' show ?thesis
    by (auto simp: pumperSteps_def callInv_def split: if_splits)
qed (use st' in \<open>simp_all add: pumperSteps_def\<close>)



lemma callInv_eof: "callInv c (st\<lparr>x_eof := b\<rparr>) = callInv c st"
  unfolding callInv_def by simp

lemma callInv_stop: "callInv c (st\<lparr>x_stop := b\<rparr>) = callInv c st"
  unfolding callInv_def by simp

lemma callInv_signal:
  assumes inv: "callInv c st" and st': "st' \<in> set (signalSteps st)"
  shows "callInv c st'"
proof -
  from st' have "st' = st\<lparr>x_eof := True\<rparr> \<or> st' = st\<lparr>x_stop := True\<rparr>"
    by (auto simp: signalSteps_def split: if_splits)
  with inv show ?thesis
    by (auto simp: callInv_eof callInv_stop)
qed

lemma callInv_reach:
  "st \<in> reach c st0 \<Longrightarrow> callInv c st0 \<Longrightarrow> callInv c st"
proof (induction rule: reach.induct)
  case start
  then show ?case by simp
next
  case (step st st')
  from step.hyps(2) consider "st' \<in> set (executorSteps c st)" | "st' \<in> set (pumperSteps c st)"
    | "st' \<in> set (signalSteps st)"
    by (auto simp: steps_def)
  then show ?case
  proof cases
    case 1
    from callInv_executor[OF step.IH[OF step.prems] this] show ?thesis .
  next
    case 2
    from callInv_pumper[OF step.IH[OF step.prems] this] show ?thesis .
  next
    case 3
    from callInv_signal[OF step.IH[OF step.prems] this] show ?thesis .
  qed
qed







lemma run_reach: "st \<in> reach c st0 \<Longrightarrow> run c is st = Some st' \<Longrightarrow> st' \<in> reach c st0"
proof (induction "is" arbitrary: st)
  case Nil
  then show ?case by simp
next
  case (Cons i "is")
  from Cons.prems(2) have i: "i < length (steps c st)" and r: "run c is (steps c st ! i) = Some st'"
    by (auto split: if_splits)
  from i have "steps c st ! i \<in> set (steps c st)"
    by simp
  from Cons.IH[OF reach.step[OF Cons.prems(1) this] r] show ?case .
qed

lemmas exec_defs = steps_def executorSteps_def pumperSteps_def signalSteps_def callStart_def
  execSend_def lastResponse_def sendResponse_def getResponse_def freeResponse_def freeRequest_def
  WriteResponse_def zeroResponse_def callArgs_def TakesContext_def streamValue_def
  lastStreamResponseError_def invalidRequest_def Let_def

lemmas count_defs = callCount_def countType_def counterService_def reqCount_def NewServer_def
  codec0_def






section \<open>The executor: the error of the terminal frame of a stream\<close>




section \<open>The executor: a write that fails\<close>

text \<open>
  Whatever the codec returns and whatever the handler does, streamErr stays nil and the
  second goroutine pushes no error but \<^verbatim>\<open>io.EOF\<close>, because sendResponse returns nil.
\<close>

lemma streamErr_stays_nil:
  "st \<in> reach c (callStart s c h server cd e0 s0) \<Longrightarrow>
     x_streamErr st = None \<and> (\<forall>e. x_pumper st = Pushing e \<longrightarrow> e = EOF)"
  using callInv_reach[OF _ callInv_start] by (simp add: callInv_def)

text \<open>
  C4 does not hold of the code. The first write of this codec fails. The handler sends one
  value and returns nil. After the write of the value's frame the codec's failure is used
  up, yet streamErr is nil and the second goroutine is back at its select: it has pushed
  nothing on errChan and has not returned. The call then ends with a terminal frame whose
  error is EOS, not the write error.
\<close>

theorem stream_write_error_dropped:
  "\<exists>st1 st2. run callCount [0, 1] brokenStart = Some st1 \<and>
     c_wresults (x_codec st1) = [] \<and> x_pumper st1 = AtSelect \<and> x_streamErr st1 = None \<and>
     run callCount [0, 0, 0] st1 = Some st2 \<and> st2 \<in> reach callCount brokenStart \<and>
     x_pc st2 = Finished None \<and>
     terminalFrames (x_trace st2) =
       [(\<lparr>resp_ServiceMethod = ''Counter.Count'', resp_Seq = 5, resp_Error = ''EOS''\<rparr>,
         invalidRequest, True)]"
proof -
  have a: "\<exists>st1 st2. run callCount [0, 1] brokenStart = Some st1 \<and>
     c_wresults (x_codec st1) = [] \<and> x_pumper st1 = AtSelect \<and> x_streamErr st1 = None \<and>
     run callCount [0, 0, 0] st1 = Some st2 \<and>
     x_pc st2 = Finished None \<and>
     terminalFrames (x_trace st2) =
       [(\<lparr>resp_ServiceMethod = ''Counter.Count'', resp_Seq = 5, resp_Error = ''EOS''\<rparr>,
         invalidRequest, True)]"
    by (simp add: brokenStart_def codecBroken_def exec_defs count_defs)
  then obtain st1 st2 where
    b: "run callCount [0, 1] brokenStart = Some st1" "run callCount [0, 0, 0] st1 = Some st2"
      and c: "c_wresults (x_codec st1) = [] \<and> x_pumper st1 = AtSelect \<and> x_streamErr st1 = None \<and>
        x_pc st2 = Finished None \<and>
        terminalFrames (x_trace st2) =
          [(\<lparr>resp_ServiceMethod = ''Counter.Count'', resp_Seq = 5, resp_Error = ''EOS''\<rparr>,
            invalidRequest, True)]"
    by blast
  have "st2 \<in> reach callCount brokenStart"
    using run_reach[OF run_reach[OF reach.start b(1)] b(2)] .
  with b c show ?thesis
    by blast
qed


end
